theory Spec2Isabelle
  imports Complex_Main "HOL-Library.Monad_Syntax"
begin

section \<open>The sim2sim runner of \<^verbatim>\<open>legged_lab/scripts/sim2sim.py\<close>\<close>

text \<open>
  The runner reads sensors of a physics engine, assembles an observation, keeps a rolling
  history of observations, asks a policy for an action and turns the action into joint
  targets. The embedding follows the Python method by method.

  Numbers: every floating-point value of the source (Python floats, \<^verbatim>\<open>float64\<close> and
  \<^verbatim>\<open>float32\<close> arrays) is a \<^typ>\<open>real\<close> here, so arithmetic is exact and a store into a
  \<^verbatim>\<open>float32\<close> array keeps the value. The one exception is the remainder \<^verbatim>\<open>x % 1.0\<close> of
  \<^verbatim>\<open>calculate_gait_para\<close>: its rounding can reach the divisor itself, so the rounding
  step of that operator is modelled. Python integers that count things are \<^typ>\<open>nat\<close>,
  the index argument of \<^verbatim>\<open>adjust_command_vel\<close> is an \<^typ>\<open>int\<close>.

  Errors: an exception of the source (IndexError, ValueError of a shape mismatch,
  ZeroDivisionError) ends the run; a method that can raise returns an option, and
  \<^const>\<open>None\<close> stands for the raise.
\<close>

subsection \<open>Configuration\<close>

text \<open>
  \<^verbatim>\<open>SimToSimCfg.sim\<close> and \<^verbatim>\<open>SimToSimCfg.robot\<close>. The fields \<^verbatim>\<open>sim.dt\<close> and
  \<^verbatim>\<open>robot.gait_cycle\<close> are named \<open>sim_dt\<close> and \<open>robot_gait_cycle\<close>, because the runner
  has attributes \<^verbatim>\<open>dt\<close> and \<^verbatim>\<open>gait_cycle\<close> of its own.
\<close>

record sim =
  sim_duration :: real
  num_action :: nat
  num_obs_per_step :: nat
  actor_obs_history_length :: nat
  sim_dt :: real
  decimation :: nat
  clip_observations :: real
  clip_actions :: real
  action_scale :: real

record robot =
  gait_air_ratio_l :: real
  gait_air_ratio_r :: real
  gait_phase_offset_l :: real
  gait_phase_offset_r :: real
  robot_gait_cycle :: real

record SimToSimCfg =
  sim :: sim
  robot :: robot

definition default_sim :: sim where
  "default_sim =
     \<lparr> sim_duration = 100, num_action = 20, num_obs_per_step = 78,
       actor_obs_history_length = 10, sim_dt = 5 / 1000, decimation = 4,
       clip_observations = 100, clip_actions = 100, action_scale = 25 / 100 \<rparr>"

definition default_robot :: robot where
  "default_robot =
     \<lparr> gait_air_ratio_l = 38 / 100, gait_air_ratio_r = 38 / 100,
       gait_phase_offset_l = 38 / 100, gait_phase_offset_r = 88 / 100,
       robot_gait_cycle = 85 / 100 \<rparr>"

definition default_cfg :: SimToSimCfg where
  "default_cfg = \<lparr> sim = default_sim, robot = default_robot \<rparr>"

text \<open>The preset that the command line's \<^verbatim>\<open>--task run\<close> writes into the configuration.\<close>

definition run_robot :: robot where
  "run_robot =
     \<lparr> gait_air_ratio_l = 6 / 10, gait_air_ratio_r = 6 / 10,
       gait_phase_offset_l = 6 / 10, gait_phase_offset_r = 1 / 10,
       robot_gait_cycle = 5 / 10 \<rparr>"

subsection \<open>The runner's state and the sensor readings\<close>

record MujocoRunner =
  dt :: real
  dof_pos :: "real list"
  dof_vel :: "real list"
  action :: "real list"
  default_dof_pos :: "real list"
  episode_length_buf :: nat
  gait_phase :: "real list"
  gait_cycle :: real
  phase_ratio :: "real list"
  phase_offset :: "real list"
  mujoco_to_isaac_idx :: "nat list"
  isaac_to_mujoco_idx :: "nat list"
  command_vel :: "real list"
  obs_history :: "real list"

text \<open>
  What \<^verbatim>\<open>get_obs\<close> reads from \<^verbatim>\<open>self.data\<close>: the flat sensor array and the three named
  sensors. The orientation sensor is scalar-first (w, x, y, z), as the engine gives it.
\<close>

record sensors =
  sensordata :: "real list"
  linear_velocity :: "real list"
  angular_velocity :: "real list"
  orientation :: "real list"

subsection \<open>Array operations of numpy that the runner uses\<close>

text \<open>\<^verbatim>\<open>a[lo:hi]\<close> with literal bounds: never raises, shorter when the array is.\<close>

definition np_slice :: "nat \<Rightarrow> nat \<Rightarrow> 'a list \<Rightarrow> 'a list" where
  "np_slice lo hi xs = take (hi - lo) (drop lo xs)"

text \<open>
  \<^verbatim>\<open>a[lo:hi] = v\<close>: the slice is cut to the array; \<open>v\<close> must have the slice's length, or a
  single element, which is then repeated; any other shape raises ValueError.
\<close>

definition set_slice :: "nat \<Rightarrow> nat \<Rightarrow> 'a list \<Rightarrow> 'a list \<Rightarrow> 'a list option" where
  "set_slice lo hi xs v =
     (let lo' = min lo (length xs);
          hi' = max lo' (min hi (length xs));
          k = hi' - lo'
      in if length v = k then Some (take lo' xs @ v @ drop hi' xs)
         else if length v = 1 then Some (take lo' xs @ replicate k (hd v) @ drop hi' xs)
         else None)"

text \<open>\<^verbatim>\<open>a[idx]\<close> with a list of indices: IndexError when one of them is out of range.\<close>

definition gather :: "'a list \<Rightarrow> nat list \<Rightarrow> 'a list option" where
  "gather xs idx =
     (if list_all (\<lambda>i. i < length xs) idx then Some (map (\<lambda>i. xs ! i) idx) else None)"

text \<open>
  An elementwise operation on two one-dimensional arrays: equal lengths, or one of them
  of length one (broadcast); otherwise ValueError.
\<close>

definition np_binop :: "('a \<Rightarrow> 'a \<Rightarrow> 'a) \<Rightarrow> 'a list \<Rightarrow> 'a list \<Rightarrow> 'a list option" where
  "np_binop f xs ys =
     (if length xs = length ys then Some (map2 f xs ys)
      else if length xs = 1 then Some (map (f (hd xs)) ys)
      else if length ys = 1 then Some (map (\<lambda>x. f x (hd ys)) xs)
      else None)"

text \<open>\<^verbatim>\<open>np.clip(x, lo, hi)\<close> is \<^verbatim>\<open>minimum(maximum(x, lo), hi)\<close>.\<close>

definition np_clip :: "real \<Rightarrow> real \<Rightarrow> real \<Rightarrow> real" where
  "np_clip lo hi x = min (max x lo) hi"

text \<open>
  \<^verbatim>\<open>np.roll(a, shift)\<close> on a one-dimensional array: the offset is \<^verbatim>\<open>shift % (len(a) or 1)\<close>,
  the last \<open>offset\<close> elements come first.
\<close>

definition np_roll :: "int \<Rightarrow> 'a list \<Rightarrow> 'a list" where
  "np_roll shift xs =
     (let L = length xs;
          offset = nat (shift mod int (if L = 0 then 1 else L))
      in drop (L - offset) xs @ take (L - offset) xs)"

subsection \<open>\<^verbatim>\<open>init_variables\<close>\<close>

definition init_variables :: "SimToSimCfg \<Rightarrow> MujocoRunner" where
  "init_variables cfg =
     \<lparr> dt = real (decimation (sim cfg)) * sim_dt (sim cfg),
       dof_pos = replicate (num_action (sim cfg)) 0,
       dof_vel = replicate (num_action (sim cfg)) 0,
       action = replicate (num_action (sim cfg)) 0,
       default_dof_pos =
         [0, - 5 / 10, 0, 1, - 5 / 10, 0, 0, - 5 / 10, 0, 1, - 5 / 10, 0,
          0, 1 / 10, 0, - 3 / 10, 0, - 1 / 10, 0, - 3 / 10],
       episode_length_buf = 0,
       gait_phase = replicate 2 0,
       gait_cycle = robot_gait_cycle (robot cfg),
       phase_ratio = [gait_air_ratio_l (robot cfg), gait_air_ratio_r (robot cfg)],
       phase_offset = [gait_phase_offset_l (robot cfg), gait_phase_offset_r (robot cfg)],
       mujoco_to_isaac_idx =
         [0, 6, 12, 16, 1, 7, 13, 17, 2, 8, 14, 18, 3, 9, 15, 19, 4, 10, 5, 11],
       isaac_to_mujoco_idx =
         [0, 4, 8, 12, 16, 18, 1, 5, 9, 13, 17, 19, 2, 6, 10, 14, 3, 7, 11, 15],
       command_vel = [0, 0, 0],
       obs_history =
         replicate (num_obs_per_step (sim cfg) * actor_obs_history_length (sim cfg)) 0 \<rparr>"

subsection \<open>\<^verbatim>\<open>quat_rotate_inverse\<close>\<close>

text \<open>
  \<^verbatim>\<open>np.cross\<close> and \<^verbatim>\<open>np.dot\<close> on three-element vectors. The runner calls
  \<^verbatim>\<open>quat_rotate_inverse\<close> with a four-element quaternion and a three-element vector only;
  on other shapes numpy raises or takes the two-dimensional branch of \<^verbatim>\<open>np.cross\<close>, and
  the model returns \<^const>\<open>None\<close> for all of them.
\<close>

fun cross :: "real list \<Rightarrow> real list \<Rightarrow> real list" where
  "cross [a1, a2, a3] [b1, b2, b3] = [a2 * b3 - a3 * b2, a3 * b1 - a1 * b3, a1 * b2 - a2 * b1]"
| "cross _ _ = []"

definition dot :: "real list \<Rightarrow> real list \<Rightarrow> real" where
  "dot xs ys = sum_list (map2 (*) xs ys)"

definition quat_rotate_inverse :: "real list \<Rightarrow> real list \<Rightarrow> real list option" where
  "quat_rotate_inverse q v =
     (let q_vec = take 3 q in
      if length q_vec = 3 \<and> length v = 3 then
        (let q_w = last q;
             a = map (\<lambda>x. x * (2 * q_w ^ 2 - 1)) v;
             b = map (\<lambda>x. x * q_w * 2) (cross q_vec v);
             c = map (\<lambda>x. x * dot q_vec v * 2) q_vec
         in Some (map2 (+) (map2 (-) a b) c))
      else None)"

subsection \<open>\<^verbatim>\<open>get_obs\<close>\<close>

text \<open>
  Lines 152 to 179 of the source: the observation of one step, written slice by slice
  into an array of \<^verbatim>\<open>num_obs_per_step\<close> zeros. It reads \<^verbatim>\<open>self.dof_pos\<close> and
  \<^verbatim>\<open>self.dof_vel\<close>, which \<^verbatim>\<open>get_obs\<close> has set from the sensors before.
\<close>

definition observation :: "SimToSimCfg \<Rightarrow> sensors \<Rightarrow> MujocoRunner \<Rightarrow> real list option" where
  "observation cfg d s = do {
     let obs = replicate (num_obs_per_step (sim cfg)) 0;
     obs \<leftarrow> set_slice 0 3 obs (linear_velocity d);
     obs \<leftarrow> set_slice 3 6 obs (angular_velocity d);
     q \<leftarrow> gather (orientation d) [1, 2, 3, 0];
     g \<leftarrow> quat_rotate_inverse q [0, 0, - 1];
     obs \<leftarrow> set_slice 6 9 obs g;
     obs \<leftarrow> set_slice 9 12 obs (command_vel s);
     delta \<leftarrow> np_binop (-) (dof_pos s) (default_dof_pos s);
     pos \<leftarrow> gather delta (mujoco_to_isaac_idx s);
     obs \<leftarrow> set_slice 12 32 obs pos;
     vel \<leftarrow> gather (dof_vel s) (mujoco_to_isaac_idx s);
     obs \<leftarrow> set_slice 32 52 obs vel;
     obs \<leftarrow> set_slice 52 72 obs
              (map (np_clip (- clip_actions (sim cfg)) (clip_actions (sim cfg))) (action s));
     obs \<leftarrow> set_slice 72 74 obs (map (\<lambda>p. sin (2 * pi * p)) (gait_phase s));
     obs \<leftarrow> set_slice 74 76 obs (map (\<lambda>p. cos (2 * pi * p)) (gait_phase s));
     set_slice 76 78 obs (phase_ratio s)
   }"

text \<open>
  \<^verbatim>\<open>a[-n:] = v\<close>: the slice starts \<open>n\<close> before the end (at the start when the array is
  shorter), and \<^verbatim>\<open>-0\<close> is \<^verbatim>\<open>0\<close>, the whole array.
\<close>

definition set_tail :: "nat \<Rightarrow> 'a list \<Rightarrow> 'a list \<Rightarrow> 'a list option" where
  "set_tail n xs v = set_slice (if n = 0 then 0 else length xs - n) (length xs) xs v"

text \<open>
  \<^verbatim>\<open>get_obs\<close> returns the clipped history and leaves the unclipped one in
  \<^verbatim>\<open>self.obs_history\<close>; the result is the pair of the returned array and the new state.
  \<^verbatim>\<open>self.dof_pos\<close> and \<^verbatim>\<open>self.dof_vel\<close> become views of the engine's sensor array; the
  runner reads them only here, right after it has set them, so the model stores their
  values at that moment.
\<close>

definition get_obs ::
  "SimToSimCfg \<Rightarrow> sensors \<Rightarrow> MujocoRunner \<Rightarrow> (real list \<times> MujocoRunner) option" where
  "get_obs cfg d s = do {
     let s = s\<lparr>dof_pos := np_slice 0 20 (sensordata d)\<rparr>;
     let s = s\<lparr>dof_vel := np_slice 20 40 (sensordata d)\<rparr>;
     obs \<leftarrow> observation cfg d s;
     let h = np_roll (- int (num_obs_per_step (sim cfg))) (obs_history s);
     h \<leftarrow> set_tail (num_obs_per_step (sim cfg)) h obs;
     let s = s\<lparr>obs_history := h\<rparr>;
     Some (map (np_clip (- clip_observations (sim cfg)) (clip_observations (sim cfg)))
             (obs_history s), s)
   }"

subsection \<open>\<^verbatim>\<open>position_control\<close>\<close>

text \<open>
  The method assigns to no attribute; like \<^const>\<open>get_obs\<close> it returns its result together
  with the state it leaves.
\<close>

definition position_control ::
  "SimToSimCfg \<Rightarrow> MujocoRunner \<Rightarrow> (real list \<times> MujocoRunner) option" where
  "position_control cfg s = do {
     let actions_scaled = map (\<lambda>a. a * action_scale (sim cfg)) (action s);
     g \<leftarrow> gather actions_scaled (isaac_to_mujoco_idx s);
     target \<leftarrow> np_binop (+) g (default_dof_pos s);
     Some (target, s)
   }"

subsection \<open>\<^verbatim>\<open>calculate_gait_para\<close>\<close>

text \<open>
  \<^verbatim>\<open>x % 1.0\<close> on a \<^verbatim>\<open>float64\<close>, as numpy and Python compute it:
  \<^verbatim>\<open>mod = fmod(x, 1.0); if mod != 0 and mod < 0: mod += 1.0\<close>, and a zero \<^verbatim>\<open>mod\<close> is returned
  as zero. \<^verbatim>\<open>fmod\<close> is exact, it takes the integer part towards zero away and has the sign
  of \<open>x\<close>. The addition \<^verbatim>\<open>mod += 1.0\<close> is a floating-point addition and is rounded to the
  nearest \<^verbatim>\<open>float64\<close>, ties to the even significand. Its exact result lies in \<open>(0, 1)\<close>. From
  \<open>1/2\<close> up the \<^verbatim>\<open>float64\<close> values are the multiples of \<^verbatim>\<open>2**-53\<close>, the sum is rounded to the
  nearest of them and that can be 1 itself. Below \<open>1/2\<close> the sum of a \<^verbatim>\<open>float64\<close> and 1 is a
  \<^verbatim>\<open>float64\<close> again and nothing is rounded.
\<close>

definition c_fmod_one :: "real \<Rightarrow> real" where
  "c_fmod_one x = x - of_int (if 0 \<le> x then \<lfloor>x\<rfloor> else \<lceil>x\<rceil>)"

definition round_half_even :: "real \<Rightarrow> int" where
  "round_half_even z =
     (let f = \<lfloor>z\<rfloor>; r = z - of_int f
      in if r < 1 / 2 then f else if 1 / 2 < r then f + 1 else if even f then f else f + 1)"

definition float64_add_one :: "real \<Rightarrow> real" where
  "float64_add_one m =
     (let y = m + 1
      in if 1 / 2 \<le> y then of_int (round_half_even (y * 2 ^ 53)) / 2 ^ 53 else y)"

definition float64_mod_one :: "real \<Rightarrow> real" where
  "float64_mod_one x =
     (let m = c_fmod_one x
      in if m = 0 then 0 else if m < 0 then float64_add_one m else m)"

text \<open>
  The division of two Python floats raises ZeroDivisionError on a zero cycle; an index
  assignment or read raises IndexError on a shorter array.
\<close>

definition calculate_gait_para :: "MujocoRunner \<Rightarrow> MujocoRunner option" where
  "calculate_gait_para s =
     (if gait_cycle s = 0 then None
      else if length (phase_offset s) < 2 \<or> length (gait_phase s) < 2 then None
      else
        (let t = real (episode_length_buf s) * dt s / gait_cycle s;
             s = s\<lparr>gait_phase := (gait_phase s)[0 := float64_mod_one (t + phase_offset s ! 0)]\<rparr>;
             s = s\<lparr>gait_phase := (gait_phase s)[1 := float64_mod_one (t + phase_offset s ! 1)]\<rparr>
         in Some s))"

subsection \<open>\<^verbatim>\<open>adjust_command_vel\<close> and the keyboard\<close>

text \<open>A Python index into an array of length \<open>L\<close>: negative indices count from the end.\<close>

definition py_index :: "nat \<Rightarrow> int \<Rightarrow> nat option" where
  "py_index L i =
     (if 0 \<le> i \<and> i < int L then Some (nat i)
      else if - int L \<le> i \<and> i < 0 then Some (nat (i + int L))
      else None)"

definition adjust_command_vel :: "int \<Rightarrow> real \<Rightarrow> MujocoRunner \<Rightarrow> MujocoRunner option" where
  "adjust_command_vel idx increment s = do {
     j \<leftarrow> py_index (length (command_vel s)) idx;
     let s = s\<lparr>command_vel := (command_vel s)[j := command_vel s ! j + increment]\<rparr>;
     Some (s\<lparr>command_vel := (command_vel s)[j := np_clip (- 1) 1 (command_vel s ! j)]\<rparr>)
   }"

text \<open>The six keys of \<^verbatim>\<open>on_press\<close>; any other key leaves the state as it is.\<close>

definition on_press :: "char \<Rightarrow> MujocoRunner \<Rightarrow> MujocoRunner option" where
  "on_press key s =
     (if key = CHR ''8'' then adjust_command_vel 0 (2 / 10) s
      else if key = CHR ''2'' then adjust_command_vel 0 (- 2 / 10) s
      else if key = CHR ''4'' then adjust_command_vel 1 (- 2 / 10) s
      else if key = CHR ''6'' then adjust_command_vel 1 (2 / 10) s
      else if key = CHR ''7'' then adjust_command_vel 2 (- 2 / 10) s
      else if key = CHR ''9'' then adjust_command_vel 2 (2 / 10) s
      else Some s)"

text \<open>A sequence of calls, each given by its index and increment; a raise ends it.\<close>

fun adjust_all :: "(int \<times> real) list \<Rightarrow> MujocoRunner \<Rightarrow> MujocoRunner option" where
  "adjust_all [] s = Some s"
| "adjust_all ((idx, increment) # cs) s =
     (case adjust_command_vel idx increment s of
        None \<Rightarrow> None
      | Some s' \<Rightarrow> adjust_all cs s')"

subsection \<open>One iteration of the loop of \<^verbatim>\<open>run\<close>\<close>

text \<open>
  The physics engine and the policy are outside the repository. The engine is a state of
  type \<open>'d\<close> with two functions: \<open>sense\<close> reads the sensors, \<open>mj_step\<close> takes the control
  vector written to \<^verbatim>\<open>data.ctrl\<close> and advances the engine by one step. The policy maps
  the observation history to its output vector. Pacing and rendering change no state.
\<close>

fun substeps ::
  "(real list \<Rightarrow> 'd \<Rightarrow> 'd) \<Rightarrow> SimToSimCfg \<Rightarrow> nat \<Rightarrow> MujocoRunner \<times> 'd \<Rightarrow>
   (MujocoRunner \<times> 'd) option" where
  "substeps mj_step cfg 0 sd = Some sd"
| "substeps mj_step cfg (Suc k) (s, d) =
     (case position_control cfg s of
        None \<Rightarrow> None
      | Some (ctrl, s') \<Rightarrow> substeps mj_step cfg k (s', mj_step ctrl d))"

text \<open>
  The body of the loop: \<^verbatim>\<open>self.obs_history = self.get_obs()\<close>, the policy's first 20
  outputs written into \<^verbatim>\<open>self.action\<close> and clipped, \<^verbatim>\<open>decimation\<close> physics steps
  (\<^const>\<open>substeps\<close>), the counter, the gait phases. \<open>macro_steps\<close> is that body \<open>n\<close> times.
\<close>

definition macro_step ::
  "('d \<Rightarrow> sensors) \<Rightarrow> (real list \<Rightarrow> 'd \<Rightarrow> 'd) \<Rightarrow> (real list \<Rightarrow> real list) \<Rightarrow>
   SimToSimCfg \<Rightarrow> MujocoRunner \<times> 'd \<Rightarrow> (MujocoRunner \<times> 'd) option" where
  "macro_step sense mj_step policy cfg sd = do {
     let (s, d) = sd;
     (h, s) \<leftarrow> get_obs cfg (sense d) s;
     let s = s\<lparr>obs_history := h\<rparr>;
     a \<leftarrow> set_slice 0 (length (action s)) (action s) (np_slice 0 20 (policy (obs_history s)));
     let s = s\<lparr>action := a\<rparr>;
     let s = s\<lparr>action :=
               map (np_clip (- clip_actions (sim cfg)) (clip_actions (sim cfg))) (action s)\<rparr>;
     (s, d) \<leftarrow> substeps mj_step cfg (decimation (sim cfg)) (s, d);
     let s = s\<lparr>episode_length_buf := episode_length_buf s + 1\<rparr>;
     s \<leftarrow> calculate_gait_para s;
     Some (s, d)
   }"

fun macro_steps ::
  "('d \<Rightarrow> sensors) \<Rightarrow> (real list \<Rightarrow> 'd \<Rightarrow> 'd) \<Rightarrow> (real list \<Rightarrow> real list) \<Rightarrow>
   SimToSimCfg \<Rightarrow> nat \<Rightarrow> MujocoRunner \<times> 'd \<Rightarrow> (MujocoRunner \<times> 'd) option" where
  "macro_steps sense mj_step policy cfg 0 sd = Some sd"
| "macro_steps sense mj_step policy cfg (Suc n) sd =
     (case macro_steps sense mj_step policy cfg n sd of
        None \<Rightarrow> None
      | Some sd' \<Rightarrow> macro_step sense mj_step policy cfg sd')"

text \<open>
  The loop of \<^verbatim>\<open>run\<close> goes on while the engine's time is below \<^verbatim>\<open>sim_duration\<close>. Whether
  it ends depends on the engine, so the model counts iterations down from a bound and
  returns \<^const>\<open>None\<close> when the bound is used up, as it does on a raise. \<open>time\<close> reads
  \<^verbatim>\<open>data.time\<close>.
\<close>

fun run ::
  "('d \<Rightarrow> real) \<Rightarrow> ('d \<Rightarrow> sensors) \<Rightarrow> (real list \<Rightarrow> 'd \<Rightarrow> 'd) \<Rightarrow> (real list \<Rightarrow> real list) \<Rightarrow>
   SimToSimCfg \<Rightarrow> nat \<Rightarrow> MujocoRunner \<times> 'd \<Rightarrow> (MujocoRunner \<times> 'd) option" where
  "run time sense mj_step policy cfg 0 sd = None"
| "run time sense mj_step policy cfg (Suc k) (s, d) =
     (if time d < sim_duration (sim cfg)
      then (case macro_step sense mj_step policy cfg (s, d) of
              None \<Rightarrow> None
            | Some sd' \<Rightarrow> run time sense mj_step policy cfg k sd')
      else Some (s, d))"

section \<open>Invariants and closed forms\<close>

text \<open>
  The definitions of this section are not in the source. They name the shapes that the
  arrays of a running system have, the values that the source's methods return on such
  shapes, and the example inputs at which the theorems are instantiated.
\<close>

text \<open>The sizes of the default configuration that the layout of the observation rests on.\<close>

definition sizes_ok :: "SimToSimCfg \<Rightarrow> bool" where
  "sizes_ok cfg \<longleftrightarrow>
     num_action (sim cfg) = 20 \<and> num_obs_per_step (sim cfg) = 78 \<and>
     actor_obs_history_length (sim cfg) = 10"

text \<open>
  Sensor readings of the shape the engine gives for this robot: 20 joint positions and
  20 joint velocities in the flat array, two three-element velocities, a quaternion.
\<close>

definition sensors_ok :: "sensors \<Rightarrow> bool" where
  "sensors_ok d \<longleftrightarrow>
     40 \<le> length (sensordata d) \<and> length (linear_velocity d) = 3 \<and>
     length (angular_velocity d) = 3 \<and> 4 \<le> length (orientation d)"

text \<open>The lengths of the runner's arrays, and index tables that stay below 20.\<close>

definition shape_ok :: "MujocoRunner \<Rightarrow> bool" where
  "shape_ok s \<longleftrightarrow>
     length (action s) = 20 \<and> length (default_dof_pos s) = 20 \<and>
     length (mujoco_to_isaac_idx s) = 20 \<and> list_all (\<lambda>i. i < 20) (mujoco_to_isaac_idx s) \<and>
     length (isaac_to_mujoco_idx s) = 20 \<and> list_all (\<lambda>i. i < 20) (isaac_to_mujoco_idx s) \<and>
     length (command_vel s) = 3 \<and> length (gait_phase s) = 2 \<and>
     length (phase_ratio s) = 2 \<and> length (phase_offset s) = 2"

text \<open>The state after the first two assignments of \<^const>\<open>get_obs\<close>.\<close>

definition with_sensors :: "sensors \<Rightarrow> MujocoRunner \<Rightarrow> MujocoRunner" where
  "with_sensors d s =
     s\<lparr>dof_pos := np_slice 0 20 (sensordata d), dof_vel := np_slice 20 40 (sensordata d)\<rparr>"

text \<open>
  The value of \<^const>\<open>quat_rotate_inverse\<close> on the reordered orientation and the vector
  \<open>(0, 0, -1)\<close>, multiplied out.
\<close>

definition gravity :: "sensors \<Rightarrow> real list" where
  "gravity d =
     (let q = orientation d in
      [2 * (q ! 0 * q ! 2 - q ! 1 * q ! 3), - 2 * (q ! 0 * q ! 1 + q ! 2 * q ! 3),
       1 - 2 * (q ! 0)\<^sup>2 - 2 * (q ! 3)\<^sup>2])"

text \<open>The ten parts of the observation, in the order in which they lie in the vector.\<close>

definition obs_parts :: "SimToSimCfg \<Rightarrow> sensors \<Rightarrow> MujocoRunner \<Rightarrow> real list list" where
  "obs_parts cfg d s =
     [linear_velocity d, angular_velocity d, gravity d, command_vel s,
      map (\<lambda>i. dof_pos s ! i - default_dof_pos s ! i) (mujoco_to_isaac_idx s),
      map (\<lambda>i. dof_vel s ! i) (mujoco_to_isaac_idx s),
      map (np_clip (- clip_actions (sim cfg)) (clip_actions (sim cfg))) (action s),
      map (\<lambda>p. sin (2 * pi * p)) (gait_phase s),
      map (\<lambda>p. cos (2 * pi * p)) (gait_phase s),
      phase_ratio s]"

definition clipped_obs :: "SimToSimCfg \<Rightarrow> real list \<Rightarrow> real list" where
  "clipped_obs cfg xs =
     map (np_clip (- clip_observations (sim cfg)) (clip_observations (sim cfg))) xs"

text \<open>The history that \<^const>\<open>get_obs\<close> returns, and the state that one iteration leaves.\<close>

definition next_history :: "SimToSimCfg \<Rightarrow> sensors \<Rightarrow> MujocoRunner \<Rightarrow> real list" where
  "next_history cfg d s =
     clipped_obs cfg (drop 78 (obs_history s) @ concat (obs_parts cfg d (with_sensors d s)))"

definition next_runner ::
  "(real list \<Rightarrow> real list) \<Rightarrow> SimToSimCfg \<Rightarrow> sensors \<Rightarrow> MujocoRunner \<Rightarrow> MujocoRunner" where
  "next_runner policy cfg d s =
     (with_sensors d s)
       \<lparr> action := map (np_clip (- clip_actions (sim cfg)) (clip_actions (sim cfg)))
                      (take 20 (policy (next_history cfg d s))),
         episode_length_buf := Suc (episode_length_buf s),
         gait_phase :=
           [float64_mod_one
              (real (Suc (episode_length_buf s)) * dt s / gait_cycle s + phase_offset s ! 0),
            float64_mod_one
              (real (Suc (episode_length_buf s)) * dt s / gait_cycle s + phase_offset s ! 1)],
         obs_history := next_history cfg d s \<rparr>"

text \<open>What holds of the runner after \<open>n\<close> iterations that start from \<^const>\<open>init_variables\<close>.\<close>

definition runner_inv :: "SimToSimCfg \<Rightarrow> nat \<Rightarrow> MujocoRunner \<Rightarrow> bool" where
  "runner_inv cfg n s \<longleftrightarrow>
     shape_ok s \<and> length (obs_history s) = 780 \<and> episode_length_buf s = n \<and>
     dt s = dt (init_variables cfg) \<and>
     gait_cycle s = gait_cycle (init_variables cfg) \<and>
     phase_offset s = phase_offset (init_variables cfg) \<and>
     phase_ratio s = phase_ratio (init_variables cfg) \<and>
     default_dof_pos s = default_dof_pos (init_variables cfg) \<and>
     mujoco_to_isaac_idx s = mujoco_to_isaac_idx (init_variables cfg) \<and>
     isaac_to_mujoco_idx s = isaac_to_mujoco_idx (init_variables cfg) \<and>
     command_vel s = command_vel (init_variables cfg)"

definition history_clipped :: "SimToSimCfg \<Rightarrow> MujocoRunner \<Rightarrow> bool" where
  "history_clipped cfg s \<longleftrightarrow>
     list_all (\<lambda>x. - clip_observations (sim cfg) \<le> x \<and> x \<le> clip_observations (sim cfg))
       (obs_history s)"

definition command_ok :: "MujocoRunner \<Rightarrow> bool" where
  "command_ok s \<longleftrightarrow>
     length (command_vel s) = 3 \<and> list_all (\<lambda>x. - 1 \<le> x \<and> x \<le> 1) (command_vel s)"

text \<open>
  Example inputs: an engine with a single state, whose sensors read 1 at every joint and
  the identity orientation, and a policy that answers 20 zeros.
\<close>

definition rest_pose :: sensors where
  "rest_pose =
     \<lparr> sensordata = replicate 40 1, linear_velocity = [0, 0, 0],
       angular_velocity = [0, 0, 0], orientation = [1, 0, 0, 0] \<rparr>"

definition still_sense :: "unit \<Rightarrow> sensors" where
  "still_sense u = rest_pose"

definition still_step :: "real list \<Rightarrow> unit \<Rightarrow> unit" where
  "still_step ctrl u = u"

definition zero_policy :: "real list \<Rightarrow> real list" where
  "zero_policy h = replicate 20 0"



section \<open>Properties\<close>

subsection \<open>The joint-index tables\<close>

lemma mujoco_to_isaac_idx_init:
  "mujoco_to_isaac_idx (init_variables cfg) =
     [0, 6, 12, 16, 1, 7, 13, 17, 2, 8, 14, 18, 3, 9, 15, 19, 4, 10, 5, 11]"
  by (simp add: init_variables_def)

lemma isaac_to_mujoco_idx_init:
  "isaac_to_mujoco_idx (init_variables cfg) =
     [0, 4, 8, 12, 16, 18, 1, 5, 9, 13, 17, 19, 2, 6, 10, 14, 3, 7, 11, 15]"
  by (simp add: init_variables_def)

lemma all_below_iff: "(\<forall>i<n. P i) \<longleftrightarrow> list_all P [0..<n]"
  by (auto simp: list_all_iff)

lemma tables_pointwise:
  "list_all (\<lambda>i.
      [0, 4, 8, 12, 16, 18, 1, 5, 9, 13, 17, 19, 2, 6, 10, 14, 3, 7, 11, 15] !
        ([0, 6, 12, 16, 1, 7, 13, 17, 2, 8, 14, 18, 3, 9, 15, 19, 4, 10, 5, 11] ! i) = i \<and>
      [0, 6, 12, 16, 1, 7, 13, 17, 2, 8, 14, 18, 3, 9, 15, 19, 4, 10, 5, 11] !
        ([0, 4, 8, 12, 16, 18, 1, 5, 9, 13, 17, 19, 2, 6, 10, 14, 3, 7, 11, 15] ! i) = i \<and>
      count_list [0, 6, 12, 16, 1, 7, 13, 17, 2, 8, 14, 18, 3, 9, 15, 19, 4, 10, 5, 11] i = 1 \<and>
      count_list [0, 4, 8, 12, 16, 18, 1, 5, 9, 13, 17, 19, 2, 6, 10, 14, 3, 7, 11, 15] i = 1)
    [0..<20::nat]"
  by code_simp

lemma tables_sets:
  "set [0, 6, 12, 16, 1, 7, 13, 17, 2, 8, 14, 18, 3, 9, 15, 19, 4, 10, 5, 11] = {0..<20::nat}"
  "set [0, 4, 8, 12, 16, 18, 1, 5, 9, 13, 17, 19, 2, 6, 10, 14, 3, 7, 11, 15] = {0..<20::nat}"
  by code_simp+

text \<open>
  C1. The two tables that \<^const>\<open>init_variables\<close> builds have 20 entries each, they are
  inverse to each other at every index below 20 (in both directions), and each of them
  contains every index below 20 exactly once.
\<close>

theorem joint_index_tables_inverse:
  "length (mujoco_to_isaac_idx (init_variables cfg)) = 20 \<and>
   length (isaac_to_mujoco_idx (init_variables cfg)) = 20 \<and>
   (\<forall>i<20.
      isaac_to_mujoco_idx (init_variables cfg) ! (mujoco_to_isaac_idx (init_variables cfg) ! i) = i \<and>
      mujoco_to_isaac_idx (init_variables cfg) ! (isaac_to_mujoco_idx (init_variables cfg) ! i) = i \<and>
      count_list (mujoco_to_isaac_idx (init_variables cfg)) i = 1 \<and>
      count_list (isaac_to_mujoco_idx (init_variables cfg)) i = 1) \<and>
   set (mujoco_to_isaac_idx (init_variables cfg)) = {0..<20} \<and>
   set (isaac_to_mujoco_idx (init_variables cfg)) = {0..<20}"
  unfolding mujoco_to_isaac_idx_init isaac_to_mujoco_idx_init all_below_iff
  using tables_pointwise tables_sets by simp

theorem joint_index_tables_inverse_witness:
  "(7::nat) < 20 \<and>
   mujoco_to_isaac_idx (init_variables default_cfg) ! 7 = 17 \<and>
   isaac_to_mujoco_idx (init_variables default_cfg) !
     (mujoco_to_isaac_idx (init_variables default_cfg) ! 7) = 7"
proof -
  have "\<forall>i<20. isaac_to_mujoco_idx (init_variables default_cfg) !
                 (mujoco_to_isaac_idx (init_variables default_cfg) ! i) = i"
    using joint_index_tables_inverse [of default_cfg] by blast
  from this [rule_format, of 7] show ?thesis
    by (simp add: mujoco_to_isaac_idx_init)
qed

subsection \<open>Array operations\<close>

lemma set_slice_exact:
  "lo \<le> hi \<Longrightarrow> hi \<le> length xs \<Longrightarrow> length v = hi - lo \<Longrightarrow>
   set_slice lo hi xs v = Some (take lo xs @ v @ drop hi xs)"
  by (simp add: set_slice_def Let_def min_def max_def)

lemma gather_orientation:
  "4 \<le> length q \<Longrightarrow> gather q [1, 2, 3, 0] = Some [q ! 1, q ! 2, q ! 3, q ! 0]"
  by (auto simp: gather_def)

lemma np_clip_between: "lo \<le> hi \<Longrightarrow> lo \<le> np_clip lo hi x \<and> np_clip lo hi x \<le> hi"
  by (simp add: np_clip_def)

lemma np_roll_rotate: "np_roll (- int n) xs = rotate n xs"
proof (cases "xs = []")
  case True
  then show ?thesis by (simp add: np_roll_def)
next
  case False
  define L where "L = length xs"
  have L: "0 < L" using False by (simp add: L_def)
  show ?thesis
  proof (cases "n mod L = 0")
    case True
    then have "(- int n) mod int L = 0"
      by (metis mod_minus_eq of_nat_0 of_nat_mod add.inverse_neutral mod_0)
    then show ?thesis
      using True L by (simp add: np_roll_def L_def [symmetric] rotate_drop_take)
  next
    case nz: False
    have "int n mod int L \<noteq> 0"
      using nz by (metis of_nat_eq_0_iff of_nat_mod)
    then have "(- int n) mod int L = int L - int n mod int L"
      by (simp add: zmod_zminus1_eq_if)
    also have "\<dots> = int (L - n mod L)"
      using L by (simp add: of_nat_diff less_imp_le zmod_int)
    finally have "nat ((- int n) mod int L) = L - n mod L" by simp
    moreover have "L - (L - n mod L) = n mod L"
      using L by simp
    ultimately show ?thesis
      using L by (simp add: np_roll_def L_def [symmetric] rotate_drop_take)
  qed
qed

lemma np_roll_history:
  "length H = 780 \<Longrightarrow> np_roll (- int 78) H = drop 78 H @ take 78 H"
  unfolding np_roll_rotate by (simp add: rotate_drop_take)

lemma set_tail_history:
  "length H = 780 \<Longrightarrow> length obs = 78 \<Longrightarrow>
   set_tail 78 (drop 78 H @ take 78 H) obs = Some (drop 78 H @ obs)"
  by (simp add: set_tail_def set_slice_exact)

subsection \<open>The observation and the history\<close>

lemma quat_rotate_inverse_down:
  "quat_rotate_inverse [x, y, z, w] [0, 0, - 1] =
     Some [2 * (w * y - x * z), - 2 * (w * x + y * z), 1 - 2 * w\<^sup>2 - 2 * z\<^sup>2]"
  by (simp add: quat_rotate_inverse_def dot_def Let_def algebra_simps power2_eq_square)

lemma observation_concat:
  assumes n: "num_obs_per_step (sim cfg) = 78"
    and d: "sensors_ok d" and s: "shape_ok s"
    and dp: "length (dof_pos s) = 20" and dv: "length (dof_vel s) = 20"
  shows "observation cfg d s = Some (concat (obs_parts cfg d s))"
proof -
  let ?lin = "linear_velocity d" and ?ang = "angular_velocity d" and ?g = "gravity d"
  let ?cmd = "command_vel s"
  let ?pos = "map (\<lambda>i. dof_pos s ! i - default_dof_pos s ! i) (mujoco_to_isaac_idx s)"
  let ?vel = "map (\<lambda>i. dof_vel s ! i) (mujoco_to_isaac_idx s)"
  let ?act = "map (np_clip (- clip_actions (sim cfg)) (clip_actions (sim cfg))) (action s)"
  let ?sn = "map (\<lambda>p. sin (2 * pi * p)) (gait_phase s)"
  let ?cs = "map (\<lambda>p. cos (2 * pi * p)) (gait_phase s)"
  let ?rat = "phase_ratio s"
  from d have ld: "length ?lin = 3" "length ?ang = 3" "4 \<le> length (orientation d)"
    by (simp_all add: sensors_ok_def)
  from s have ls: "length ?cmd = 3" "length (action s) = 20" "length (default_dof_pos s) = 20"
    "length (mujoco_to_isaac_idx s) = 20" "list_all (\<lambda>i. i < 20) (mujoco_to_isaac_idx s)"
    "length (gait_phase s) = 2" "length ?rat = 2"
    by (simp_all add: shape_ok_def)
  have lg: "length ?g = 3" by (simp add: gravity_def Let_def)
  have q: "gather (orientation d) [1, 2, 3, 0] =
      Some [orientation d ! 1, orientation d ! 2, orientation d ! 3, orientation d ! 0]"
    using ld(3) by (rule gather_orientation)
  have g: "quat_rotate_inverse
      [orientation d ! 1, orientation d ! 2, orientation d ! 3, orientation d ! 0] [0, 0, - 1] = Some ?g"
    by (simp add: quat_rotate_inverse_down gravity_def Let_def)
  have delta: "np_binop (-) (dof_pos s) (default_dof_pos s) =
      Some (map2 (-) (dof_pos s) (default_dof_pos s))"
    using dp ls(3) by (simp add: np_binop_def)
  have pos: "gather (map2 (-) (dof_pos s) (default_dof_pos s)) (mujoco_to_isaac_idx s) = Some ?pos"
    using dp ls(3) ls(5) by (auto simp: gather_def list_all_iff)
  have vel: "gather (dof_vel s) (mujoco_to_isaac_idx s) = Some ?vel"
    using dv ls(5) by (simp add: gather_def)
  have s1: "set_slice 0 3 (replicate 78 0) ?lin = Some (?lin @ replicate 75 0)"
    using ld by (simp add: set_slice_exact)
  have s2: "set_slice 3 6 (?lin @ replicate 75 0) ?ang = Some (?lin @ ?ang @ replicate 72 0)"
    using ld by (simp add: set_slice_exact)
  have s3: "set_slice 6 9 (?lin @ ?ang @ replicate 72 0) ?g =
      Some (?lin @ ?ang @ ?g @ replicate 69 0)"
    using ld lg by (simp add: set_slice_exact)
  have s4: "set_slice 9 12 (?lin @ ?ang @ ?g @ replicate 69 0) ?cmd =
      Some (?lin @ ?ang @ ?g @ ?cmd @ replicate 66 0)"
    using ld lg ls by (simp add: set_slice_exact)
  have s5: "set_slice 12 32 (?lin @ ?ang @ ?g @ ?cmd @ replicate 66 0) ?pos =
      Some (?lin @ ?ang @ ?g @ ?cmd @ ?pos @ replicate 46 0)"
    using ld lg ls by (simp add: set_slice_exact)
  have s6: "set_slice 32 52 (?lin @ ?ang @ ?g @ ?cmd @ ?pos @ replicate 46 0) ?vel =
      Some (?lin @ ?ang @ ?g @ ?cmd @ ?pos @ ?vel @ replicate 26 0)"
    using ld lg ls by (simp add: set_slice_exact)
  have s7: "set_slice 52 72 (?lin @ ?ang @ ?g @ ?cmd @ ?pos @ ?vel @ replicate 26 0) ?act =
      Some (?lin @ ?ang @ ?g @ ?cmd @ ?pos @ ?vel @ ?act @ replicate 6 0)"
    using ld lg ls by (simp add: set_slice_exact)
  have s8: "set_slice 72 74 (?lin @ ?ang @ ?g @ ?cmd @ ?pos @ ?vel @ ?act @ replicate 6 0) ?sn =
      Some (?lin @ ?ang @ ?g @ ?cmd @ ?pos @ ?vel @ ?act @ ?sn @ replicate 4 0)"
    using ld lg ls by (simp add: set_slice_exact)
  have s9: "set_slice 74 76 (?lin @ ?ang @ ?g @ ?cmd @ ?pos @ ?vel @ ?act @ ?sn @ replicate 4 0) ?cs =
      Some (?lin @ ?ang @ ?g @ ?cmd @ ?pos @ ?vel @ ?act @ ?sn @ ?cs @ replicate 2 0)"
    using ld lg ls by (simp add: set_slice_exact)
  have s10: "set_slice 76 78
      (?lin @ ?ang @ ?g @ ?cmd @ ?pos @ ?vel @ ?act @ ?sn @ ?cs @ replicate 2 0) ?rat =
      Some (?lin @ ?ang @ ?g @ ?cmd @ ?pos @ ?vel @ ?act @ ?sn @ ?cs @ ?rat)"
    using ld lg ls by (simp add: set_slice_exact)
  show ?thesis
    unfolding observation_def n Let_def
    by (simp only: bind.bind_lunit q g delta pos vel s1 s2 s3 s4 s5 s6 s7 s8 s9 s10
          obs_parts_def concat.simps append_Nil2)
qed

lemma length_obs_parts:
  "sensors_ok d \<Longrightarrow> shape_ok s \<Longrightarrow> length (concat (obs_parts cfg d s)) = 78"
  by (simp add: obs_parts_def sensors_ok_def shape_ok_def gravity_def Let_def)

lemma obs_parts_lengths:
  assumes "sensors_ok d" "shape_ok s"
  shows "map length (obs_parts cfg d s) = [3, 3, 3, 3, 20, 20, 20, 2, 2, 2]"
  using assms by (simp add: obs_parts_def sensors_ok_def shape_ok_def gravity_def Let_def)

lemma np_slice_concat_parts:
  assumes "length a = 3" "length b = 3" "length c = 3" "length e = 3" "length f = 20"
    "length g = 20" "length h = 20" "length i = 2" "length j = 2" "length k = 2"
  shows "np_slice 0 3 (concat [a, b, c, e, f, g, h, i, j, k]) = a"
    "np_slice 3 6 (concat [a, b, c, e, f, g, h, i, j, k]) = b"
    "np_slice 6 9 (concat [a, b, c, e, f, g, h, i, j, k]) = c"
    "np_slice 9 12 (concat [a, b, c, e, f, g, h, i, j, k]) = e"
    "np_slice 12 32 (concat [a, b, c, e, f, g, h, i, j, k]) = f"
    "np_slice 32 52 (concat [a, b, c, e, f, g, h, i, j, k]) = g"
    "np_slice 52 72 (concat [a, b, c, e, f, g, h, i, j, k]) = h"
    "np_slice 72 74 (concat [a, b, c, e, f, g, h, i, j, k]) = i"
    "np_slice 74 76 (concat [a, b, c, e, f, g, h, i, j, k]) = j"
    "np_slice 76 78 (concat [a, b, c, e, f, g, h, i, j, k]) = k"
  using assms by (simp_all add: np_slice_def)

lemma shape_ok_with_sensors: "shape_ok (with_sensors d s) = shape_ok s"
  by (simp add: shape_ok_def with_sensors_def)

lemma get_obs_Some:
  assumes n: "num_obs_per_step (sim cfg) = 78"
    and d: "sensors_ok d" and s: "shape_ok s" and H: "length (obs_history s) = 780"
  shows "get_obs cfg d s =
     Some (map (np_clip (- clip_observations (sim cfg)) (clip_observations (sim cfg)))
             (drop 78 (obs_history s) @ concat (obs_parts cfg d (with_sensors d s))),
           (with_sensors d s)\<lparr>obs_history :=
              drop 78 (obs_history s) @ concat (obs_parts cfg d (with_sensors d s))\<rparr>)"
proof -
  have dp: "length (dof_pos (with_sensors d s)) = 20" "length (dof_vel (with_sensors d s)) = 20"
    using d by (auto simp: with_sensors_def np_slice_def sensors_ok_def)
  have s': "shape_ok (with_sensors d s)"
    using s by (simp add: shape_ok_with_sensors)
  have obs: "observation cfg d (with_sensors d s) = Some (concat (obs_parts cfg d (with_sensors d s)))"
    using n d s' dp by (rule observation_concat)
  have len: "length (concat (obs_parts cfg d (with_sensors d s))) = 78"
    using d s' by (rule length_obs_parts)
  have H': "obs_history (with_sensors d s) = obs_history s"
    by (simp add: with_sensors_def)
  have ws: "s\<lparr>dof_pos := np_slice 0 20 (sensordata d), dof_vel := np_slice 20 40 (sensordata d)\<rparr>
      = with_sensors d s"
    by (simp add: with_sensors_def)
  show ?thesis
    unfolding get_obs_def Let_def ws n obs H'
    using H len by (simp add: np_roll_history set_tail_history del: of_nat_numeral)
qed

lemma clipped_obs_bounds:
  "0 \<le> clip_observations (sim cfg) \<Longrightarrow> x \<in> set (clipped_obs cfg xs) \<Longrightarrow>
   - clip_observations (sim cfg) \<le> x \<and> x \<le> clip_observations (sim cfg)"
  by (auto simp: clipped_obs_def np_clip_def)

lemma clipped_obs_id:
  "list_all (\<lambda>x. - clip_observations (sim cfg) \<le> x \<and> x \<le> clip_observations (sim cfg)) xs \<Longrightarrow>
   clipped_obs cfg xs = xs"
  by (induction xs) (simp_all add: clipped_obs_def np_clip_def)

lemma list_all_drop: "list_all P xs \<Longrightarrow> list_all P (drop n xs)"
  by (auto simp: list_all_iff dest: in_set_dropD)

subsection \<open>The remainder modulo 1\<close>









subsection \<open>One iteration and many\<close>

lemma position_control_Some:
  assumes "shape_ok s"
  shows "position_control cfg s =
     Some (map (\<lambda>i. action s ! (isaac_to_mujoco_idx s ! i) * action_scale (sim cfg)
                      + default_dof_pos s ! i) [0..<20], s)"
proof -
  from assms have len: "length (action s) = 20" "length (default_dof_pos s) = 20"
    "length (isaac_to_mujoco_idx s) = 20" and idx: "list_all (\<lambda>i. i < 20) (isaac_to_mujoco_idx s)"
    by (simp_all add: shape_ok_def)
  let ?sc = "map (\<lambda>a. a * action_scale (sim cfg)) (action s)"
  let ?g = "map (\<lambda>i. ?sc ! i) (isaac_to_mujoco_idx s)"
  have g: "gather ?sc (isaac_to_mujoco_idx s) = Some ?g"
    using len idx by (simp add: gather_def)
  have add: "np_binop (+) ?g (default_dof_pos s) = Some (map2 (+) ?g (default_dof_pos s))"
    using len by (simp add: np_binop_def)
  have "map2 (+) ?g (default_dof_pos s) =
      map (\<lambda>i. action s ! (isaac_to_mujoco_idx s ! i) * action_scale (sim cfg)
                 + default_dof_pos s ! i) [0..<20]"
  proof (rule nth_equalityI)
    show "length (map2 (+) ?g (default_dof_pos s)) = length (map (\<lambda>i. action s ! (isaac_to_mujoco_idx s ! i) * action_scale (sim cfg)
                 + default_dof_pos s ! i) [0..<20])"
      using len by simp
  next
    fix i assume "i < length (map2 (+) ?g (default_dof_pos s))"
    then have i: "i < 20" using len by simp
    then have "isaac_to_mujoco_idx s ! i < 20"
      using idx len by (simp add: list_all_length)
    then show "map2 (+) ?g (default_dof_pos s) ! i =
       map (\<lambda>i. action s ! (isaac_to_mujoco_idx s ! i) * action_scale (sim cfg)
                 + default_dof_pos s ! i) [0..<20] ! i"
      using i len by simp
  qed
  then show ?thesis
    by (simp add: position_control_def Let_def g add)
qed

lemma substeps_Some:
  "position_control cfg s = Some (t, s) \<Longrightarrow> \<exists>d'. substeps mj_step cfg k (s, d) = Some (s, d')"
  by (induction k arbitrary: d) simp_all

lemma calculate_gait_para_Some:
  assumes "gait_cycle s \<noteq> 0" and "length (gait_phase s) = 2" and "length (phase_offset s) = 2"
  shows "calculate_gait_para s =
     Some (s\<lparr>gait_phase :=
        [float64_mod_one (real (episode_length_buf s) * dt s / gait_cycle s + phase_offset s ! 0),
         float64_mod_one (real (episode_length_buf s) * dt s / gait_cycle s + phase_offset s ! 1)]\<rparr>)"
proof -
  obtain p0 p1 where gp: "gait_phase s = [p0, p1]"
    using assms(2) by (metis (no_types) Suc_length_conv length_0_conv numeral_2_eq_2)
  show ?thesis
    using assms gp by (simp add: calculate_gait_para_def Let_def)
qed

lemma macro_step_Some:
  assumes n: "num_obs_per_step (sim cfg) = 78"
    and d: "sensors_ok (sense d)" and s: "shape_ok s" and H: "length (obs_history s) = 780"
    and p: "20 \<le> length (policy (next_history cfg (sense d) s))"
    and c: "gait_cycle s \<noteq> 0"
  shows "\<exists>d'. macro_step sense mj_step policy cfg (s, d) =
            Some (next_runner policy cfg (sense d) s, d')"
proof -
  let ?h = "next_history cfg (sense d) s"
  let ?s1 = "(with_sensors (sense d) s)\<lparr>obs_history :=
      drop 78 (obs_history s) @ concat (obs_parts cfg (sense d) (with_sensors (sense d) s))\<rparr>"
  let ?s2 = "?s1\<lparr>obs_history := ?h\<rparr>"
  let ?a = "take 20 (policy ?h)"
  let ?s3 = "?s2\<lparr>action := map (np_clip (- clip_actions (sim cfg)) (clip_actions (sim cfg))) ?a\<rparr>"
  have g: "get_obs cfg (sense d) s = Some (?h, ?s1)"
    using get_obs_Some [OF n d s H] by (simp add: next_history_def clipped_obs_def)
  have la: "length (action ?s2) = 20"
    using s by (simp add: shape_ok_def with_sensors_def)
  have a: "set_slice 0 (length (action ?s2)) (action ?s2) (np_slice 0 20 (policy ?h)) = Some ?a"
    unfolding la using p la by (simp add: set_slice_exact np_slice_def)
  have s3: "shape_ok ?s3"
    using s p by (simp add: shape_ok_def with_sensors_def)
  obtain t where t: "position_control cfg ?s3 = Some (t, ?s3)"
    using position_control_Some [OF s3] by blast
  obtain d' where sub: "substeps mj_step cfg (decimation (sim cfg)) (?s3, d) = Some (?s3, d')"
    using substeps_Some [OF t, of mj_step "decimation (sim cfg)" d] by blast
  let ?s4 = "?s3\<lparr>episode_length_buf := episode_length_buf ?s3 + 1\<rparr>"
  have gp: "calculate_gait_para ?s4 = Some (next_runner policy cfg (sense d) s)"
    using c s by (subst calculate_gait_para_Some)
      (simp_all add: shape_ok_def with_sensors_def next_runner_def)
  have "macro_step sense mj_step policy cfg (s, d) = Some (next_runner policy cfg (sense d) s, d')"
    using a sub gp by (simp add: macro_step_def g)
  then show ?thesis ..
qed

lemma shape_ok_init: "num_action (sim cfg) = 20 \<Longrightarrow> shape_ok (init_variables cfg)"
  by (simp add: shape_ok_def init_variables_def)

lemma runner_inv_init: "sizes_ok cfg \<Longrightarrow> runner_inv cfg 0 (init_variables cfg)"
  by (simp add: runner_inv_def sizes_ok_def shape_ok_init) (simp add: init_variables_def)

lemma history_clipped_init:
  "0 \<le> clip_observations (sim cfg) \<Longrightarrow> history_clipped cfg (init_variables cfg)"
  by (simp add: history_clipped_def init_variables_def list_all_iff)

lemma length_next_history:
  "sensors_ok d \<Longrightarrow> shape_ok s \<Longrightarrow> length (obs_history s) = 780 \<Longrightarrow>
   length (next_history cfg d s) = 780"
  by (simp add: next_history_def clipped_obs_def length_obs_parts shape_ok_with_sensors)

lemma history_clipped_next:
  "0 \<le> clip_observations (sim cfg) \<Longrightarrow> history_clipped cfg (next_runner policy cfg d s)"
  using clipped_obs_bounds [of cfg]
  by (simp add: history_clipped_def next_runner_def next_history_def list_all_iff)

lemma runner_inv_next:
  assumes "runner_inv cfg n s" and "sensors_ok d" and "20 \<le> length (policy (next_history cfg d s))"
  shows "runner_inv cfg (Suc n) (next_runner policy cfg d s)"
proof -
  from assms(1) have s: "shape_ok s" and H: "length (obs_history s) = 780"
    by (simp_all add: runner_inv_def)
  have "length (obs_history (next_runner policy cfg d s)) = 780"
    using length_next_history [OF assms(2) s H] by (simp add: next_runner_def)
  moreover have "shape_ok (next_runner policy cfg d s)"
    using s assms(3) by (simp add: shape_ok_def next_runner_def with_sensors_def)
  ultimately show ?thesis
    using assms(1) by (simp add: runner_inv_def) (simp add: next_runner_def with_sensors_def)
qed

lemma macro_steps_next:
  assumes sz: "sizes_ok cfg" and cyc: "robot_gait_cycle (robot cfg) \<noteq> 0"
    and sens: "\<forall>d. sensors_ok (sense d)" and pol: "\<forall>h. 20 \<le> length (policy h)"
  shows "\<exists>s d d'. macro_steps sense mj_step policy cfg n (init_variables cfg, d0) = Some (s, d) \<and>
           runner_inv cfg n s \<and>
           (0 \<le> clip_observations (sim cfg) \<longrightarrow> history_clipped cfg s) \<and>
           macro_step sense mj_step policy cfg (s, d) =
             Some (next_runner policy cfg (sense d) s, d')"
proof (induction n)
  case 0
  have inv: "runner_inv cfg 0 (init_variables cfg)"
    using sz by (rule runner_inv_init)
  have "\<exists>d'. macro_step sense mj_step policy cfg (init_variables cfg, d0) =
      Some (next_runner policy cfg (sense d0) (init_variables cfg), d')"
    using sz sens pol cyc inv
    by (intro macro_step_Some) (simp_all add: sizes_ok_def runner_inv_def, simp add: init_variables_def)
  then show ?case
    using inv history_clipped_init by auto
next
  case (Suc n)
  then obtain s d d' where
    run: "macro_steps sense mj_step policy cfg n (init_variables cfg, d0) = Some (s, d)"
    and inv: "runner_inv cfg n s"
    and step: "macro_step sense mj_step policy cfg (s, d) =
             Some (next_runner policy cfg (sense d) s, d')"
    by blast
  let ?s = "next_runner policy cfg (sense d) s"
  have run': "macro_steps sense mj_step policy cfg (Suc n) (init_variables cfg, d0) = Some (?s, d')"
    using run step by simp
  have inv': "runner_inv cfg (Suc n) ?s"
    using inv sens pol by (intro runner_inv_next) simp_all
  have cyc': "gait_cycle ?s \<noteq> 0"
    using inv' cyc by (simp add: runner_inv_def) (simp add: init_variables_def)
  have "\<exists>d''. macro_step sense mj_step policy cfg (?s, d') =
      Some (next_runner policy cfg (sense d') ?s, d'')"
    using sz sens pol cyc' inv'
    by (intro macro_step_Some) (simp_all add: sizes_ok_def runner_inv_def)
  then show ?case
    using run' inv' history_clipped_next by blast
qed

lemma macro_steps_front:
  "macro_steps sense mj_step policy cfg (Suc n) sd =
     (case macro_step sense mj_step policy cfg sd of
        None \<Rightarrow> None
      | Some sd' \<Rightarrow> macro_steps sense mj_step policy cfg n sd')"
proof (induction n)
  case 0
  show ?case by (simp split: option.split)
next
  case (Suc n)
  show ?case
    by (subst macro_steps.simps(2)) (simp only: Suc, simp split: option.split)
qed

lemma run_macro_steps:
  "run time sense mj_step policy cfg k sd = Some sd' \<Longrightarrow>
   \<exists>n. macro_steps sense mj_step policy cfg n sd = Some sd'"
proof (induction k arbitrary: sd)
  case 0
  then show ?case by simp
next
  case (Suc k)
  obtain s d where sd: "sd = (s, d)" by (cases sd)
  show ?case
  proof (cases "time d < sim_duration (sim cfg)")
    case False
    with Suc.prems sd have "sd' = sd" by simp
    then have "macro_steps sense mj_step policy cfg 0 sd = Some sd'" by simp
    then show ?thesis ..
  next
    case True
    with Suc.prems sd obtain sd1 where
      st: "macro_step sense mj_step policy cfg sd = Some sd1"
      and rest: "run time sense mj_step policy cfg k sd1 = Some sd'"
      by (auto split: option.splits)
    from Suc.IH [OF rest] obtain n where
      n: "macro_steps sense mj_step policy cfg n sd1 = Some sd'" ..
    have "macro_steps sense mj_step policy cfg (Suc n) sd = Some sd'"
      unfolding macro_steps_front st using n by simp
    then show ?thesis ..
  qed
qed

subsection \<open>The command velocity\<close>

lemma py_index_three:
  "idx \<in> {0, 1, 2} \<Longrightarrow> py_index 3 idx = Some (nat idx) \<and> nat idx < 3"
  by (auto simp: py_index_def)

lemma adjust_command_vel_ok:
  assumes "command_ok s" and "idx \<in> {0, 1, 2}"
  shows "\<exists>s'. adjust_command_vel idx increment s = Some s' \<and> command_ok s'"
proof -
  from assms have len: "length (command_vel s) = 3"
    and rng: "\<forall>x\<in>set (command_vel s). - 1 \<le> x \<and> x \<le> 1"
    by (simp_all add: command_ok_def list_all_iff)
  from assms(2) have j: "py_index 3 idx = Some (nat idx)" "nat idx < 3"
    using py_index_three by blast+
  let ?c = "np_clip (- 1) 1 (command_vel s ! nat idx + increment)"
  have c: "- 1 \<le> ?c \<and> ?c \<le> 1"
    by (rule np_clip_between) simp
  have eq: "adjust_command_vel idx increment s =
        Some (s\<lparr>command_vel := (command_vel s)[nat idx := ?c]\<rparr>)"
    using j len by (simp add: adjust_command_vel_def)
  have "\<forall>x\<in>set ((command_vel s)[nat idx := ?c]). - 1 \<le> x \<and> x \<le> 1"
    using rng c set_update_subset_insert [of "command_vel s" "nat idx" ?c] by auto
  then show ?thesis
    using eq len by (simp add: command_ok_def list_all_iff)
qed

lemma adjust_all_ok:
  "command_ok s \<Longrightarrow> \<forall>c\<in>set cs. fst c \<in> {0, 1, 2} \<Longrightarrow>
   \<exists>s'. adjust_all cs s = Some s' \<and> command_ok s'"
proof (induction cs arbitrary: s)
  case Nil
  then show ?case by simp
next
  case (Cons c cs)
  obtain idx inc where c: "c = (idx, inc)" by (cases c)
  from Cons.prems c have "idx \<in> {0, 1, 2}" by simp
  with Cons.prems(1) obtain s1 where s1: "adjust_command_vel idx inc s = Some s1" "command_ok s1"
    using adjust_command_vel_ok by blast
  from Cons.IH [OF s1(2)] Cons.prems(2) obtain s' where "adjust_all cs s1 = Some s'" "command_ok s'"
    by auto
  then show ?case using s1 c by simp
qed

lemma init_command_ok: "command_ok (init_variables cfg)"
  by (simp add: command_ok_def init_variables_def)

lemma on_press_ok:
  "command_ok s \<Longrightarrow> \<exists>s'. on_press key s = Some s' \<and> command_ok s'"
  by (simp add: on_press_def adjust_command_vel_ok)

subsection \<open>The example inputs\<close>

lemma sensors_ok_rest_pose: "sensors_ok rest_pose"
  by (simp add: sensors_ok_def rest_pose_def)

lemma sizes_ok_default: "sizes_ok default_cfg"
  by (simp add: sizes_ok_def default_cfg_def default_sim_def)

lemma shape_ok_default: "shape_ok (init_variables default_cfg)"
  by (rule shape_ok_init) (simp add: default_cfg_def default_sim_def)

lemma history_default: "length (obs_history (init_variables default_cfg)) = 780"
  by (simp add: init_variables_def default_cfg_def default_sim_def)

lemma still_sense_ok: "\<forall>d. sensors_ok (still_sense d)"
  by (simp add: still_sense_def sensors_ok_rest_pose)

lemma zero_policy_ok: "\<forall>h. 20 \<le> length (zero_policy h)"
  by (simp add: zero_policy_def)

section \<open>The claims\<close>

text \<open>
  C2. On sensor readings and a runner of the usual shapes, \<^const>\<open>get_obs\<close> returns, and the
  observation it assembles and stores at the end of the history has 78 elements: linear
  velocity in [0:3], angular velocity in [3:6], the rotated vector \<open>(0, 0, -1)\<close> in [6:9],
  the command velocity in [9:12], sensor positions minus the default pose, gathered through
  \<open>mujoco_to_isaac_idx\<close>, in [12:32], sensor velocities gathered the same way in [32:52],
  the clipped action in [52:72], the sines of the gait phases in [72:74], their cosines in
  [74:76] and the phase ratio in [76:78].
\<close>

theorem get_obs_layout:
  assumes n: "num_obs_per_step (sim cfg) = 78"
    and d: "sensors_ok d" and s: "shape_ok s" and H: "length (obs_history s) = 780"
  shows "\<exists>h s' obs.
     get_obs cfg d s = Some (h, s') \<and> obs = drop 702 (obs_history s') \<and>
     observation cfg d (s\<lparr>dof_pos := np_slice 0 20 (sensordata d),
                           dof_vel := np_slice 20 40 (sensordata d)\<rparr>) = Some obs \<and>
     length obs = 78 \<and>
     np_slice 0 3 obs = linear_velocity d \<and>
     np_slice 3 6 obs = angular_velocity d \<and>
     quat_rotate_inverse [orientation d ! 1, orientation d ! 2, orientation d ! 3, orientation d ! 0]
       [0, 0, - 1] = Some (np_slice 6 9 obs) \<and>
     np_slice 9 12 obs = command_vel s \<and>
     np_slice 12 32 obs =
       map (\<lambda>i. sensordata d ! i - default_dof_pos s ! i) (mujoco_to_isaac_idx s) \<and>
     np_slice 32 52 obs = map (\<lambda>i. sensordata d ! (20 + i)) (mujoco_to_isaac_idx s) \<and>
     np_slice 52 72 obs =
       map (np_clip (- clip_actions (sim cfg)) (clip_actions (sim cfg))) (action s) \<and>
     np_slice 72 74 obs = map (\<lambda>p. sin (2 * pi * p)) (gait_phase s) \<and>
     np_slice 74 76 obs = map (\<lambda>p. cos (2 * pi * p)) (gait_phase s) \<and>
     np_slice 76 78 obs = phase_ratio s"
proof -
  let ?w = "with_sensors d s"
  let ?obs = "concat (obs_parts cfg d ?w)"
  have w: "shape_ok ?w" using s by (simp add: shape_ok_with_sensors)
  have dp: "length (dof_pos ?w) = 20" "length (dof_vel ?w) = 20"
    using d by (auto simp: with_sensors_def np_slice_def sensors_ok_def)
  have len: "length ?obs = 78" using d w by (rule length_obs_parts)
  have g: "get_obs cfg d s =
      Some (clipped_obs cfg (drop 78 (obs_history s) @ ?obs),
            ?w\<lparr>obs_history := drop 78 (obs_history s) @ ?obs\<rparr>)"
    using get_obs_Some [OF n d s H] by (simp add: clipped_obs_def)
  have tail: "drop 702 (obs_history (?w\<lparr>obs_history := drop 78 (obs_history s) @ ?obs\<rparr>)) = ?obs"
    using H by simp
  have ob: "observation cfg d ?w = Some ?obs"
    using n d w dp by (rule observation_concat)
  have idx: "\<forall>i\<in>set (mujoco_to_isaac_idx s). i < 20"
    using s by (simp add: shape_ok_def list_all_iff)
  have sd: "40 \<le> length (sensordata d)" using d by (simp add: sensors_ok_def)
  have pos: "map (\<lambda>i. dof_pos ?w ! i - default_dof_pos ?w ! i) (mujoco_to_isaac_idx ?w) =
      map (\<lambda>i. sensordata d ! i - default_dof_pos s ! i) (mujoco_to_isaac_idx s)"
    using idx by (simp add: with_sensors_def np_slice_def)
  have vel: "map (\<lambda>i. dof_vel ?w ! i) (mujoco_to_isaac_idx ?w) =
      map (\<lambda>i. sensordata d ! (20 + i)) (mujoco_to_isaac_idx s)"
    using idx sd by (simp add: with_sensors_def np_slice_def)
  have grav: "quat_rotate_inverse
      [orientation d ! 1, orientation d ! 2, orientation d ! 3, orientation d ! 0] [0, 0, - 1]
      = Some (gravity d)"
    by (simp add: quat_rotate_inverse_down gravity_def Let_def)
  have parts: "obs_parts cfg d ?w =
     [linear_velocity d, angular_velocity d, gravity d, command_vel s,
      map (\<lambda>i. sensordata d ! i - default_dof_pos s ! i) (mujoco_to_isaac_idx s),
      map (\<lambda>i. sensordata d ! (20 + i)) (mujoco_to_isaac_idx s),
      map (np_clip (- clip_actions (sim cfg)) (clip_actions (sim cfg))) (action s),
      map (\<lambda>p. sin (2 * pi * p)) (gait_phase s),
      map (\<lambda>p. cos (2 * pi * p)) (gait_phase s),
      phase_ratio s]"
    unfolding obs_parts_def pos vel by (simp add: with_sensors_def)
  have lens: "length (linear_velocity d) = 3" "length (angular_velocity d) = 3"
    "length (gravity d) = 3" "length (command_vel s) = 3"
    "length (map (\<lambda>i. sensordata d ! i - default_dof_pos s ! i) (mujoco_to_isaac_idx s)) = 20"
    "length (map (\<lambda>i. sensordata d ! (20 + i)) (mujoco_to_isaac_idx s)) = 20"
    "length (map (np_clip (- clip_actions (sim cfg)) (clip_actions (sim cfg))) (action s)) = 20"
    "length (map (\<lambda>p. sin (2 * pi * p)) (gait_phase s)) = 2"
    "length (map (\<lambda>p. cos (2 * pi * p)) (gait_phase s)) = 2"
    "length (phase_ratio s) = 2"
    using d s by (simp_all add: sensors_ok_def shape_ok_def gravity_def Let_def)
  note sl = np_slice_concat_parts [OF lens]
  have ws: "s\<lparr>dof_pos := np_slice 0 20 (sensordata d), dof_vel := np_slice 20 40 (sensordata d)\<rparr> = ?w"
    by (simp add: with_sensors_def)
  show ?thesis
    unfolding ws g
    apply (intro exI conjI)
                 apply (rule refl)
                apply (rule tail [symmetric])
               apply (rule ob)
              apply (rule len)
             apply (simp_all only: parts sl grav)
    done
qed

theorem get_obs_layout_witness:
  "\<exists>h s' obs.
     get_obs default_cfg rest_pose (init_variables default_cfg) = Some (h, s') \<and>
     obs = drop 702 (obs_history s') \<and> length obs = 78 \<and>
     np_slice 0 3 obs = [0, 0, 0] \<and> np_slice 6 9 obs = [0, 0, - 1] \<and>
     np_slice 9 12 obs = [0, 0, 0] \<and>
     np_slice 12 32 obs =
       [1, 1, 1, 1, 3 / 2, 3 / 2, 9 / 10, 11 / 10, 1, 1, 1, 1, 0, 0, 13 / 10, 13 / 10,
        3 / 2, 3 / 2, 1, 1] \<and>
     np_slice 52 72 obs = replicate 20 0 \<and>
     np_slice 76 78 obs = [38 / 100, 38 / 100]"
proof -
  have n: "num_obs_per_step (sim default_cfg) = 78"
    by (simp add: default_cfg_def default_sim_def)
  from get_obs_layout [OF n sensors_ok_rest_pose shape_ok_default history_default]
  obtain h s' obs where
    g: "get_obs default_cfg rest_pose (init_variables default_cfg) = Some (h, s')"
    and o: "obs = drop 702 (obs_history s')" "length obs = 78"
    and p: "np_slice 0 3 obs = linear_velocity rest_pose"
      "quat_rotate_inverse [orientation rest_pose ! 1, orientation rest_pose ! 2,
          orientation rest_pose ! 3, orientation rest_pose ! 0] [0, 0, - 1] = Some (np_slice 6 9 obs)"
      "np_slice 9 12 obs = command_vel (init_variables default_cfg)"
      "np_slice 12 32 obs =
         map (\<lambda>i. sensordata rest_pose ! i - default_dof_pos (init_variables default_cfg) ! i)
           (mujoco_to_isaac_idx (init_variables default_cfg))"
      "np_slice 52 72 obs =
         map (np_clip (- clip_actions (sim default_cfg)) (clip_actions (sim default_cfg)))
           (action (init_variables default_cfg))"
      "np_slice 76 78 obs = phase_ratio (init_variables default_cfg)"
    by blast
  have "np_slice 0 3 obs = [0, 0, 0]" using p(1) by (simp add: rest_pose_def)
  moreover have "np_slice 6 9 obs = [0, 0, - 1]"
    using p(2) by (simp add: rest_pose_def quat_rotate_inverse_def dot_def)
  moreover have "np_slice 9 12 obs = [0, 0, 0]" using p(3) by (simp add: init_variables_def)
  moreover have "np_slice 12 32 obs =
       [1, 1, 1, 1, 3 / 2, 3 / 2, 9 / 10, 11 / 10, 1, 1, 1, 1, 0, 0, 13 / 10, 13 / 10,
        3 / 2, 3 / 2, 1, 1]"
    using p(4) by (simp add: init_variables_def rest_pose_def)
  moreover have "np_slice 52 72 obs = replicate 20 0"
    using p(5) by (simp add: init_variables_def default_cfg_def default_sim_def np_clip_def)
  moreover have "np_slice 76 78 obs = [38 / 100, 38 / 100]"
    using p(6) by (simp add: init_variables_def default_cfg_def default_robot_def)
  ultimately show ?thesis using g o by blast
qed

text \<open>
  C3. After any number \<open>n\<close> of iterations from \<^const>\<open>init_variables\<close> the history has 780
  elements, the next iteration succeeds, and the history it leaves is the array that
  \<^const>\<open>get_obs\<close> returned: again 780 elements, the last 78 are the observation just
  assembled, clipped to the bound \<open>clip_observations\<close>, and the first 702 are the last 702
  of the history before. The engine is assumed to give sensors of the usual shapes and the
  policy at least 20 outputs; the clip bound is not negative.
\<close>

theorem obs_history_rolls:
  assumes sz: "sizes_ok cfg" and clip: "0 \<le> clip_observations (sim cfg)"
    and cyc: "robot_gait_cycle (robot cfg) \<noteq> 0"
    and sens: "\<forall>d. sensors_ok (sense d)" and pol: "\<forall>h. 20 \<le> length (policy h)"
  shows "\<exists>s d s' d' obs s1.
     macro_steps sense mj_step policy cfg n (init_variables cfg, d0) = Some (s, d) \<and>
     length (obs_history s) = 780 \<and>
     macro_step sense mj_step policy cfg (s, d) = Some (s', d') \<and>
     get_obs cfg (sense d) s = Some (obs_history s', s1) \<and>
     observation cfg (sense d)
       (s\<lparr>dof_pos := np_slice 0 20 (sensordata (sense d)),
          dof_vel := np_slice 20 40 (sensordata (sense d))\<rparr>) = Some obs \<and>
     length obs = 78 \<and>
     length (obs_history s') = 780 \<and>
     drop 702 (obs_history s') =
       map (np_clip (- clip_observations (sim cfg)) (clip_observations (sim cfg))) obs \<and>
     take 702 (obs_history s') = drop 78 (obs_history s)"
proof -
  from macro_steps_next [OF sz cyc sens pol, of mj_step n d0] clip
  obtain s d d' where
    run: "macro_steps sense mj_step policy cfg n (init_variables cfg, d0) = Some (s, d)"
    and inv: "runner_inv cfg n s" and hc: "history_clipped cfg s"
    and step: "macro_step sense mj_step policy cfg (s, d) =
             Some (next_runner policy cfg (sense d) s, d')"
    by blast
  let ?d = "sense d"
  let ?w = "with_sensors ?d s"
  let ?obs = "concat (obs_parts cfg ?d ?w)"
  let ?s' = "next_runner policy cfg ?d s"
  from inv have s: "shape_ok s" and H: "length (obs_history s) = 780"
    by (simp_all add: runner_inv_def)
  from sens have d: "sensors_ok ?d" by simp
  from sz have n: "num_obs_per_step (sim cfg) = 78" by (simp add: sizes_ok_def)
  have w: "shape_ok ?w" using s by (simp add: shape_ok_with_sensors)
  have dp: "length (dof_pos ?w) = 20" "length (dof_vel ?w) = 20"
    using d by (auto simp: with_sensors_def np_slice_def sensors_ok_def)
  have len: "length ?obs = 78" using d w by (rule length_obs_parts)
  have ob: "observation cfg ?d ?w = Some ?obs"
    using n d w dp by (rule observation_concat)
  have hist: "obs_history ?s' = clipped_obs cfg (drop 78 (obs_history s)) @ clipped_obs cfg ?obs"
    by (simp add: next_runner_def next_history_def clipped_obs_def)
  have "list_all (\<lambda>x. - clip_observations (sim cfg) \<le> x \<and> x \<le> clip_observations (sim cfg))
      (drop 78 (obs_history s))"
    using hc unfolding history_clipped_def by (rule list_all_drop)
  then have old: "clipped_obs cfg (drop 78 (obs_history s)) = drop 78 (obs_history s)"
    by (rule clipped_obs_id)
  have l1: "length (obs_history ?s') = 780"
    unfolding hist old using H len by (simp add: clipped_obs_def)
  have l2: "drop 702 (obs_history ?s') =
      map (np_clip (- clip_observations (sim cfg)) (clip_observations (sim cfg))) ?obs"
    unfolding hist old using H by (simp add: clipped_obs_def)
  have l3: "take 702 (obs_history ?s') = drop 78 (obs_history s)"
    unfolding hist old using H by simp
  have ws: "s\<lparr>dof_pos := np_slice 0 20 (sensordata ?d), dof_vel := np_slice 20 40 (sensordata ?d)\<rparr> = ?w"
    by (simp add: with_sensors_def)
  have g: "get_obs cfg ?d s = Some (obs_history ?s',
      ?w\<lparr>obs_history := drop 78 (obs_history s) @ ?obs\<rparr>)"
    using get_obs_Some [OF n d s H]
    by (simp add: next_runner_def next_history_def clipped_obs_def)
  have ob': "observation cfg ?d
       (s\<lparr>dof_pos := np_slice 0 20 (sensordata ?d),
          dof_vel := np_slice 20 40 (sensordata ?d)\<rparr>) = Some ?obs"
    unfolding ws by (rule ob)
  show ?thesis
    using run H step g ob' len l1 l2 l3 by blast
qed

theorem obs_history_rolls_witness:
  "\<exists>s d s' d'.
     macro_steps still_sense still_step zero_policy default_cfg 2
       (init_variables default_cfg, ()) = Some (s, d) \<and>
     macro_step still_sense still_step zero_policy default_cfg (s, d) = Some (s', d') \<and>
     length (obs_history s') = 780 \<and>
     take 702 (obs_history s') = drop 78 (obs_history s)"
proof -
  have c: "0 \<le> clip_observations (sim default_cfg)"
    and g: "robot_gait_cycle (robot default_cfg) \<noteq> 0"
    by (simp_all add: default_cfg_def default_sim_def default_robot_def)
  from obs_history_rolls [OF sizes_ok_default c g still_sense_ok zero_policy_ok, of still_step 2 "()"]
  show ?thesis by blast
qed



text \<open>
  C5. \<^const>\<open>position_control\<close> returns the scaled action gathered through
  \<open>isaac_to_mujoco_idx\<close> plus the default pose; for an action of 20 zeros that is the
  default pose; the state it leaves is the state it was given, and a second call on that
  state returns the same vector.
\<close>

theorem position_control_correct:
  assumes "shape_ok s"
  shows "\<exists>target.
     position_control cfg s = Some (target, s) \<and>
     length target = 20 \<and>
     (\<forall>i<20. target ! i =
        action s ! (isaac_to_mujoco_idx s ! i) * action_scale (sim cfg) + default_dof_pos s ! i) \<and>
     (action s = replicate 20 0 \<longrightarrow> target = default_dof_pos s) \<and>
     (position_control cfg s \<bind> (\<lambda>(t, s1). position_control cfg s1)) = Some (target, s)"
proof -
  let ?t = "map (\<lambda>i. action s ! (isaac_to_mujoco_idx s ! i) * action_scale (sim cfg)
                      + default_dof_pos s ! i) [0..<20]"
  have pc: "position_control cfg s = Some (?t, s)"
    using assms by (rule position_control_Some)
  from assms have len: "length (default_dof_pos s) = 20" "length (isaac_to_mujoco_idx s) = 20"
    and idx: "list_all (\<lambda>i. i < 20) (isaac_to_mujoco_idx s)"
    by (simp_all add: shape_ok_def)
  have zero: "?t = default_dof_pos s" if z: "action s = replicate 20 0"
  proof (rule nth_equalityI)
    show "length ?t = length (default_dof_pos s)" using len by simp
  next
    fix i assume "i < length ?t"
    then have i: "i < 20" by simp
    then have "isaac_to_mujoco_idx s ! i < 20"
      using idx len by (simp add: list_all_length)
    then show "?t ! i = default_dof_pos s ! i"
      using i z by simp
  qed
  show ?thesis
    using pc zero by (intro exI [of _ ?t]) simp
qed

theorem position_control_correct_witness:
  "position_control default_cfg (init_variables default_cfg) =
     Some ([0, - 5 / 10, 0, 1, - 5 / 10, 0, 0, - 5 / 10, 0, 1, - 5 / 10, 0,
            0, 1 / 10, 0, - 3 / 10, 0, - 1 / 10, 0, - 3 / 10], init_variables default_cfg)"
proof -
  have a: "action (init_variables default_cfg) = replicate 20 0"
    by (simp add: init_variables_def default_cfg_def default_sim_def)
  from position_control_correct [OF shape_ok_default, of default_cfg] a
  have "position_control default_cfg (init_variables default_cfg) =
      Some (default_dof_pos (init_variables default_cfg), init_variables default_cfg)"
    by blast
  then show ?thesis by (simp add: init_variables_def)
qed

text \<open>
  C6. After every prefix of every sequence of calls of \<^const>\<open>adjust_command_vel\<close> with
  indices 0, 1 or 2 and any increments, started from \<^const>\<open>init_variables\<close>, no call has
  raised and each of the three components of the command velocity lies in \<open>[-1, 1]\<close>.
\<close>

theorem command_vel_bounded:
  assumes "\<forall>c\<in>set cs. fst c \<in> {0, 1, 2}"
  shows "\<forall>k\<le>length cs. \<exists>s'. adjust_all (take k cs) (init_variables cfg) = Some s' \<and>
           length (command_vel s') = 3 \<and> (\<forall>x\<in>set (command_vel s'). - 1 \<le> x \<and> x \<le> 1)"
proof (intro allI impI)
  fix k assume "k \<le> length cs"
  have "\<forall>c\<in>set (take k cs). fst c \<in> {0, 1, 2}"
    using assms by (meson in_set_takeD)
  from adjust_all_ok [OF init_command_ok this]
  show "\<exists>s'. adjust_all (take k cs) (init_variables cfg) = Some s' \<and>
           length (command_vel s') = 3 \<and> (\<forall>x\<in>set (command_vel s'). - 1 \<le> x \<and> x \<le> 1)"
    by (auto simp: command_ok_def list_all_iff)
qed

theorem command_vel_bounded_witness:
  "\<exists>s'. adjust_all [(0, 7 / 10), (0, 7 / 10), (2, - 5)] (init_variables default_cfg) = Some s' \<and>
        command_vel s' = [1, 0, - 1]"
proof -
  have "\<forall>c\<in>set [(0::int, 7 / 10 :: real), (0, 7 / 10), (2, - 5)]. fst c \<in> {0, 1, 2}" by simp
  from command_vel_bounded [OF this, of default_cfg, rule_format, of 3]
  obtain s' where "adjust_all [(0, 7 / 10), (0, 7 / 10), (2, - 5)] (init_variables default_cfg) = Some s'"
    by auto
  moreover have "adjust_all [(0, 7 / 10), (0, 7 / 10), (2, - 5)] (init_variables default_cfg)
     = Some ((init_variables default_cfg)\<lparr>command_vel := [1, 0, - 1]\<rparr>)"
    by (simp add: adjust_command_vel_def py_index_def init_variables_def np_clip_def)
  ultimately show ?thesis by simp
qed

text \<open>
  C7. For a unit quaternion \<open>(x, y, z, w)\<close> and a vector \<open>v\<close> of three components,
  \<^const>\<open>quat_rotate_inverse\<close> returns
  \<open>v (2 w\<^sup>2 - 1) - 2 w (q_vec \<times> v) + 2 q_vec (q_vec \<cdot> v)\<close>, whose squared norm, and so
  whose norm, is that of \<open>v\<close>.
\<close>

theorem quat_rotate_inverse_norm:
  assumes "x\<^sup>2 + y\<^sup>2 + z\<^sup>2 + w\<^sup>2 = 1"
  shows "\<exists>r. quat_rotate_inverse [x, y, z, w] [a, b, c] = Some r \<and>
             r = map2 (+)
                   (map2 (-) (map (\<lambda>t. t * (2 * w\<^sup>2 - 1)) [a, b, c])
                             (map (\<lambda>t. 2 * w * t) (cross [x, y, z] [a, b, c])))
                   (map (\<lambda>t. 2 * t * dot [x, y, z] [a, b, c]) [x, y, z]) \<and>
             dot r r = dot [a, b, c] [a, b, c] \<and>
             sqrt (dot r r) = sqrt (dot [a, b, c] [a, b, c])"
proof -
  let ?r = "map2 (+)
              (map2 (-) (map (\<lambda>t. t * (2 * w\<^sup>2 - 1)) [a, b, c])
                        (map (\<lambda>t. 2 * w * t) (cross [x, y, z] [a, b, c])))
              (map (\<lambda>t. 2 * t * dot [x, y, z] [a, b, c]) [x, y, z])"
  have q: "quat_rotate_inverse [x, y, z, w] [a, b, c] = Some ?r"
    by (simp add: quat_rotate_inverse_def dot_def Let_def)
  have n: "dot ?r ?r = dot [a, b, c] [a, b, c]"
    using assms
    apply (simp add: dot_def)
    apply algebra
    done
  show ?thesis
    using q n by simp
qed

theorem quat_rotate_inverse_norm_witness:
  "(3 / 5 :: real)\<^sup>2 + 0\<^sup>2 + 0\<^sup>2 + (4 / 5)\<^sup>2 = 1 \<and>
   (\<exists>r. quat_rotate_inverse [3 / 5, 0, 0, 4 / 5] [1, 2, 3] = Some r \<and> dot r r = 14)"
proof -
  have u: "(3 / 5 :: real)\<^sup>2 + 0\<^sup>2 + 0\<^sup>2 + (4 / 5)\<^sup>2 = 1"
    by (simp add: power2_eq_square)
  from quat_rotate_inverse_norm [OF u, of 1 2 3]
  obtain r where "quat_rotate_inverse [3 / 5, 0, 0, 4 / 5] [1, 2, 3] = Some r"
    "dot r r = dot [1, 2, 3] [1, 2, 3]"
    by blast
  moreover have "dot [1, 2, 3] [1, 2, 3] = 14" by (simp add: dot_def)
  ultimately show ?thesis using u by auto
qed




text \<open>
  C9. \<^const>\<open>get_obs\<close> does not leave every attribute but the history as it was: it
  overwrites \<open>dof_pos\<close> and \<open>dof_vel\<close> with the sensor readings. At the initial state and
  sensors that read 1 at every joint, \<open>dof_pos\<close> is 20 zeros before the call and 20 ones
  after it.
\<close>

theorem get_obs_overwrites_dof_pos:
  "map_option (dof_pos \<circ> snd) (get_obs default_cfg rest_pose (init_variables default_cfg)) =
     Some (replicate 20 1) \<and>
   dof_pos (init_variables default_cfg) = replicate 20 0 \<and>
   replicate 20 (1::real) \<noteq> replicate 20 0"
proof -
  have n: "num_obs_per_step (sim default_cfg) = 78"
    by (simp add: default_cfg_def default_sim_def)
  have "map_option (dof_pos \<circ> snd) (get_obs default_cfg rest_pose (init_variables default_cfg)) =
     Some (np_slice 0 20 (sensordata rest_pose))"
    unfolding get_obs_Some [OF n sensors_ok_rest_pose shape_ok_default history_default]
    by (simp add: with_sensors_def)
  moreover have "np_slice 0 20 (sensordata rest_pose) = replicate 20 1"
    by (simp add: rest_pose_def np_slice_def)
  moreover have "dof_pos (init_variables default_cfg) = replicate 20 0"
    by (simp add: init_variables_def default_cfg_def default_sim_def)
  moreover have "replicate 20 (1::real) \<noteq> replicate 20 0"
    by (simp add: replicate_eq_replicate)
  ultimately show ?thesis by simp
qed

text \<open>
  C9, as the code has it. A call of \<^const>\<open>get_obs\<close> that returns changes the history,
  \<open>dof_pos\<close> and \<open>dof_vel\<close>, the latter two to slices of the sensor array, and no other
  attribute: action, command velocity, gait phase, phase ratio, phase offsets, default
  pose, both index tables, the step counter, \<open>dt\<close> and the cycle length stay as they were.
  The sensors are an argument of the call and are not returned.
\<close>

theorem get_obs_changes_only:
  assumes "get_obs cfg d s = Some (h, s')"
  shows "s' = s\<lparr>dof_pos := np_slice 0 20 (sensordata d),
                dof_vel := np_slice 20 40 (sensordata d),
                obs_history := obs_history s'\<rparr> \<and>
         dof_pos s' = np_slice 0 20 (sensordata d) \<and>
         dof_vel s' = np_slice 20 40 (sensordata d) \<and>
         action s' = action s \<and> command_vel s' = command_vel s \<and>
         gait_phase s' = gait_phase s \<and> phase_ratio s' = phase_ratio s \<and>
         phase_offset s' = phase_offset s \<and> default_dof_pos s' = default_dof_pos s \<and>
         mujoco_to_isaac_idx s' = mujoco_to_isaac_idx s \<and>
         isaac_to_mujoco_idx s' = isaac_to_mujoco_idx s \<and>
         episode_length_buf s' = episode_length_buf s \<and> dt s' = dt s \<and>
         gait_cycle s' = gait_cycle s"
  using assms by (auto simp: get_obs_def Let_def split: bind_splits)

theorem get_obs_changes_only_witness:
  "\<exists>h s'. get_obs default_cfg rest_pose (init_variables default_cfg) = Some (h, s') \<and>
          action s' = action (init_variables default_cfg) \<and>
          command_vel s' = [0, 0, 0] \<and> gait_phase s' = [0, 0] \<and>
          dof_pos s' = replicate 20 1"
proof -
  have n: "num_obs_per_step (sim default_cfg) = 78"
    by (simp add: default_cfg_def default_sim_def)
  from get_obs_Some [OF n sensors_ok_rest_pose shape_ok_default history_default]
  obtain h s' where g: "get_obs default_cfg rest_pose (init_variables default_cfg) = Some (h, s')"
    by blast
  from get_obs_changes_only [OF g] have "action s' = action (init_variables default_cfg)"
    "command_vel s' = command_vel (init_variables default_cfg)"
    "gait_phase s' = gait_phase (init_variables default_cfg)"
    "dof_pos s' = np_slice 0 20 (sensordata rest_pose)"
    by simp_all
  then show ?thesis using g
    by (simp add: init_variables_def rest_pose_def np_slice_def numeral_2_eq_2)
qed

text \<open>
  C10. \<^const>\<open>init_variables\<close> sets both gait phases to 0, whatever the configured offsets
  and cycle length are. So in the first observation, as stored and as returned for the
  policy (the clip bound being at least 1), the sine features are \<open>(0, 0)\<close> and the cosine
  features are \<open>(1, 1)\<close>.
\<close>

theorem first_observation_gait_features:
  assumes sz: "sizes_ok cfg" and d: "sensors_ok d" and clip: "1 \<le> clip_observations (sim cfg)"
  shows "gait_phase (init_variables cfg) = [0, 0] \<and>
     (\<exists>h s'. get_obs cfg d (init_variables cfg) = Some (h, s') \<and> length h = 780 \<and>
        np_slice 72 74 (drop 702 (obs_history s')) = [0, 0] \<and>
        np_slice 74 76 (drop 702 (obs_history s')) = [1, 1] \<and>
        np_slice 72 74 (drop 702 h) = [0, 0] \<and>
        np_slice 74 76 (drop 702 h) = [1, 1])"
proof -
  let ?s = "init_variables cfg"
  let ?w = "with_sensors d ?s"
  let ?obs = "concat (obs_parts cfg d ?w)"
  let ?c = "np_clip (- clip_observations (sim cfg)) (clip_observations (sim cfg))"
  from sz have n: "num_obs_per_step (sim cfg) = 78" and na: "num_action (sim cfg) = 20"
    by (simp_all add: sizes_ok_def)
  have s: "shape_ok ?s" using na by (rule shape_ok_init)
  have H: "length (obs_history ?s) = 780"
    using sz by (simp add: init_variables_def sizes_ok_def)
  have w: "shape_ok ?w" using s by (simp add: shape_ok_with_sensors)
  have len: "length ?obs = 78" using d w by (rule length_obs_parts)
  have g: "get_obs cfg d ?s =
      Some (map ?c (drop 78 (obs_history ?s) @ ?obs),
            ?w\<lparr>obs_history := drop 78 (obs_history ?s) @ ?obs\<rparr>)"
    using n d s H by (rule get_obs_Some)
  have gp: "gait_phase ?w = [0, 0]"
    by (simp add: with_sensors_def init_variables_def numeral_2_eq_2)
  have lens: "map length (obs_parts cfg d ?w) = [3, 3, 3, 3, 20, 20, 20, 2, 2, 2]"
    using d w by (rule obs_parts_lengths)
  have sn: "np_slice 72 74 ?obs = [0, 0]" and cs: "np_slice 74 76 ?obs = [1, 1]"
    using lens by (simp_all add: obs_parts_def gp np_slice_def)
  have c0: "?c 0 = 0" and c1: "?c 1 = 1"
    using clip by (simp_all add: np_clip_def)
  have t1: "drop 702 (drop 78 (obs_history ?s) @ ?obs) = ?obs" using H by simp
  have t2: "drop 702 (map ?c (drop 78 (obs_history ?s) @ ?obs)) = map ?c ?obs"
    using H by (simp add: drop_map)
  have m: "np_slice a b (map ?c ?obs) = map ?c (np_slice a b ?obs)" for a b
    by (simp add: np_slice_def take_map drop_map)
  let ?h = "map ?c (drop 78 (obs_history ?s) @ ?obs)"
  let ?s' = "?w\<lparr>obs_history := drop 78 (obs_history ?s) @ ?obs\<rparr>"
  have r0: "length ?h = 780"
    using H len by simp
  have r1: "np_slice 72 74 (drop 702 (obs_history ?s')) = [0, 0]"
    and r2: "np_slice 74 76 (drop 702 (obs_history ?s')) = [1, 1]"
    using t1 sn cs by simp_all
  have r3: "np_slice 72 74 (drop 702 ?h) = [0, 0]"
    and r4: "np_slice 74 76 (drop 702 ?h) = [1, 1]"
    unfolding t2 m sn cs using c0 c1 by simp_all
  have gp0: "gait_phase ?s = [0, 0]"
    by (simp add: init_variables_def numeral_2_eq_2)
  show ?thesis
    using gp0 g r0 r1 r2 r3 r4 by blast
qed

theorem first_observation_gait_features_witness:
  "\<exists>h s'. get_obs default_cfg rest_pose (init_variables default_cfg) = Some (h, s') \<and>
          length h = 780 \<and> np_slice 72 74 (drop 702 h) = [0, 0] \<and>
          np_slice 74 76 (drop 702 h) = [1, 1]"
proof -
  have c: "1 \<le> clip_observations (sim default_cfg)"
    by (simp add: default_cfg_def default_sim_def)
  from first_observation_gait_features [OF sizes_ok_default sensors_ok_rest_pose c] show ?thesis by blast
qed

end
